theory Spec2Isabelle
  imports Main "HOL-Library.Word" "HOL-Library.AList"
begin

section \<open>Go values used by package kas\<close>

text \<open>
  The anchoring client of \<^verbatim>\<open>src/kas/anchor.go\<close>, embedded function by function.
  Go's \<^verbatim>\<open>uint64\<close> is a 64-bit word, Go's \<^verbatim>\<open>int\<close> a 64-bit word read as two's
  complement, \<^verbatim>\<open>*big.Int\<close> an unbounded \<^typ>\<open>int\<close>. A pointer that may be nil is an
  \<^typ>\<open>'a option\<close>. A Go \<^verbatim>\<open>error\<close> is the message it carries. A run-time panic is an
  outcome of its own, distinct from a returned error.
\<close>

type_synonym uint64 = "64 word"
type_synonym go_int = "64 word"
type_synonym Hash = "256 word"
type_synonym Address = "160 word"
type_synonym bytes = string

datatype error = Error string

datatype panic = NilDereference | DivideByZero

datatype 'a outcome = Panic panic | Return 'a

text \<open>\<^verbatim>\<open>len(xs)\<close> is a Go \<^verbatim>\<open>int\<close>.\<close>

definition len :: "'a list \<Rightarrow> go_int" where
  "len xs = word_of_nat (length xs)"

text \<open>\<^verbatim>\<open>x % y\<close> on \<^verbatim>\<open>uint64\<close>: Go panics with "integer divide by zero" when \<open>y\<close> is 0.\<close>

definition umod :: "uint64 \<Rightarrow> uint64 \<Rightarrow> uint64 outcome" where
  "umod x y = (if y = 0 then Panic DivideByZero else Return (x mod y))"

subsection \<open>Decimal rendering: \<^verbatim>\<open>(*big.Int).String()\<close> and the verb \<^verbatim>\<open>%v\<close> on an int\<close>

text \<open>The digit table of the conversion; only its first ten entries are used in base 10.\<close>

definition digits :: string where
  "digits = ''0123456789''"

definition digitChar :: "nat \<Rightarrow> char" where
  "digitChar d = digits ! d"

function natString :: "nat \<Rightarrow> string" where
  "natString n = (if n < 10 then [digitChar n] else natString (n div 10) @ [digitChar (n mod 10)])"
  by pat_completeness auto
termination
  by (relation "measure id") auto

declare natString.simps [simp del]

definition Int_String :: "int \<Rightarrow> string" where
  "Int_String x = (if x < 0 then CHR ''-'' # natString (nat (- x)) else natString (nat x))"

text \<open>
  The number a decimal numeral denotes, read digit by digit from the left; the reference
  against which the rendering is checked.
\<close>

definition digitValue :: "char \<Rightarrow> nat" where
  "digitValue c = of_char c - 48"

definition decimalValue :: "string \<Rightarrow> nat" where
  "decimalValue s = foldl (\<lambda>a c. 10 * a + digitValue c) 0 s"

definition signedDecimalValue :: "string \<Rightarrow> int" where
  "signedDecimalValue s =
     (case s of
        [] \<Rightarrow> 0
      | c # cs \<Rightarrow> if c = CHR ''-'' then - int (decimalValue cs) else int (decimalValue s))"

section \<open>Package types: blocks and the anchoring summary\<close>

text \<open>
  Modelled from the spec: package \<^verbatim>\<open>types\<close> (Block, Header, Body, Transaction,
  AnchoringDataInternalType0) is not under src/. A block has a height, the hashes of
  itself, its parent, its transactions root, its receipts root and its state root, and an
  ordered sequence of transactions; anchor.go and its test read them through
  \<^verbatim>\<open>Hash()\<close>, \<^verbatim>\<open>Header()\<close>, \<^verbatim>\<open>Body().Transactions\<close> and \<^verbatim>\<open>NumberU64()\<close>, and build
  headers with \<^verbatim>\<open>Number: big.NewInt(...)\<close>. Only the number of transactions is ever
  read, so a transaction is an opaque tag.
\<close>

datatype Transaction = Transaction nat

record Header =
  hParentHash :: Hash
  hRoot :: Hash
  hTxHash :: Hash
  hReceiptHash :: Hash
  hNumber :: int

record Block =
  header :: Header
  transactions :: "Transaction list"
  hash :: Hash

text \<open>
  Modelled from the spec: \<^verbatim>\<open>NumberU64()\<close> is the header number as a \<^verbatim>\<open>uint64\<close>, that is
  \<^verbatim>\<open>(*big.Int).Uint64()\<close>: the low 64 bits of the magnitude.
\<close>

definition NumberU64 :: "Block \<Rightarrow> uint64" where
  "NumberU64 b = word_of_nat (nat \<bar>hNumber (header b)\<bar>)"

record AnchoringDataInternalType0 =
  BlockHash :: Hash
  TxHash :: Hash
  ParentHash :: Hash
  ReceiptHash :: Hash
  StateRootHash :: Hash
  BlockNumber :: int
  BlockCount :: int
  TxCount :: int

section \<open>Package kas: configuration, collaborators, wire values\<close>

text \<open>
  Modelled from the spec: \<^verbatim>\<open>KASConfig\<close> is declared outside src/; its fields are the ones
  anchor.go and its test use.
\<close>

record KASConfig =
  Url :: string
  Xkrn :: string
  User :: string
  Pwd :: string
  Operator :: Address
  Anchor :: bool
  AnchorPeriod :: uint64

text \<open>
  The response's \<^verbatim>\<open>Code\<close> is a Go \<^verbatim>\<open>int\<close> that is only compared with \<^verbatim>\<open>codeOK\<close> and printed,
  never computed with; \<^verbatim>\<open>Result\<close> is opaque.
\<close>

record respBody =
  Code :: int
  Result :: "string option"

record Payload =
  Id :: string
  AnchoringData :: AnchoringDataInternalType0

record reqBody =
  reqOperator :: Address
  reqPayload :: Payload

record Request =
  Method :: string
  URL :: string
  Body :: bytes
  BasicAuth :: "(string \<times> string) option"
  HeaderFields :: "(string \<times> string) list"

record Response =
  RespBody :: bytes

text \<open>
  What an anchoring attempt does to the outside world, in order: requests handed to the
  HTTP client, the reading and closing of a response body, log lines, and calls of the
  \<^verbatim>\<open>AnchorDB\<close> interface.
\<close>

datatype event =
    HTTPDo Request
  | BodyDecode bytes
  | BodyClose
  | LogError string
  | LogWarn string uint64
  | LogDebug string uint64 respBody
  | LogInfo string uint64
  | DBWrite uint64
  | DBRead

record World =
  anchoredBlockNumber :: uint64
  trace :: "event list"

definition emit :: "event list \<Rightarrow> World \<Rightarrow> World" where
  "emit es w = w\<lparr>trace := trace w @ es\<rparr>"

text \<open>
  Modelled from the spec: the \<^verbatim>\<open>AnchorDB\<close> interface has no implementation under src/; it
  is the persistent watermark of the last anchored height, written and read back.
\<close>

definition WriteAnchoredBlockNumber :: "uint64 \<Rightarrow> World \<Rightarrow> World" where
  "WriteAnchoredBlockNumber blockNum w = emit [DBWrite blockNum] (w\<lparr>anchoredBlockNumber := blockNum\<rparr>)"

definition ReadAnchoredBlockNumber :: "World \<Rightarrow> uint64 \<times> World" where
  "ReadAnchoredBlockNumber w = (anchoredBlockNumber w, emit [DBRead] w)"

definition isDBEvent :: "event \<Rightarrow> bool" where
  "isDBEvent e = (case e of DBWrite n \<Rightarrow> True | DBRead \<Rightarrow> True | _ \<Rightarrow> False)"

text \<open>
  The \<^verbatim>\<open>Anchor\<close> struct: the configuration, the block lookup \<^verbatim>\<open>bc.GetBlockByNumber\<close> (nil
  is \<open>None\<close>) and the HTTP client's \<^verbatim>\<open>Do\<close>. The struct's \<^verbatim>\<open>db\<close> is the watermark held in
  \<^typ>\<open>World\<close>.
\<close>

record Anchor =
  kasConfig :: KASConfig
  bc :: "uint64 \<Rightarrow> Block option"
  client :: "Request \<Rightarrow> error + Response"

text \<open>
  The library calls of \<^verbatim>\<open>sendRequest\<close>, as parameters: \<^verbatim>\<open>json.Marshal\<close> of the request
  envelope, \<^verbatim>\<open>http.NewRequest\<close> (method, url, body) and \<^verbatim>\<open>json.NewDecoder(body).Decode(&v)\<close>,
  which takes the value \<open>v\<close> points to and gives the value it leaves there and the error
  it returns.
\<close>

record Lib =
  json_Marshal :: "reqBody \<Rightarrow> error + bytes"
  http_NewRequest :: "string \<Rightarrow> string \<Rightarrow> bytes \<Rightarrow> error + Request"
  json_Decode :: "bytes \<Rightarrow> respBody \<Rightarrow> respBody \<times> error option"

definition codeOK :: int where
  "codeOK = 0"

definition SetBasicAuth :: "Request \<Rightarrow> string \<Rightarrow> string \<Rightarrow> Request" where
  "SetBasicAuth req username password = req\<lparr>BasicAuth := Some (username, password)\<rparr>"

definition Header_Set :: "Request \<Rightarrow> string \<Rightarrow> string \<Rightarrow> Request" where
  "Header_Set req k v = req\<lparr>HeaderFields := AList.update k v (HeaderFields req)\<rparr>"

section \<open>blockToAnchoringDataInternalType0\<close>

text \<open>
  The loop \<^verbatim>\<open>for i := start; i < block.NumberU64(); i++\<close>: \<open>None\<close> is the early
  \<^verbatim>\<open>return nil\<close> at a height the lookup does not have.
\<close>

function txCountLoop :: "(uint64 \<Rightarrow> Block option) \<Rightarrow> uint64 \<Rightarrow> uint64 \<Rightarrow> go_int \<Rightarrow> go_int option" where
  "txCountLoop lookup i n txCount =
     (if i < n then
        (case lookup i of
           None \<Rightarrow> None
         | Some block \<Rightarrow> txCountLoop lookup (i + 1) n (txCount + len (transactions block)))
      else Some txCount)"
  by pat_completeness auto
termination
proof (relation "measure (\<lambda>(lookup, i, n, txCount). unat n - unat i)")
  show "wf (measure (\<lambda>(lookup, i, n, txCount). unat n - unat i))"
    by simp
next
  fix lookup :: "uint64 \<Rightarrow> Block option" and i n txCount :: uint64 and block :: Block
  assume "i < n"
  then have below: "unat i < unat n"
    by (simp add: word_less_nat_alt)
  moreover have "unat n < 2 ^ 64"
    using unsigned_less [of n] by simp
  ultimately have "unat i + 1 < 2 ^ 64"
    by simp
  then have "unat (i + 1) = unat i + 1"
    by (simp add: unat_word_ariths)
  with below show "((lookup, i + 1, n, txCount + len (transactions block)), (lookup, i, n, txCount))
      \<in> measure (\<lambda>(lookup, i, n, txCount). unat n - unat i)"
    by simp
qed

declare txCountLoop.simps [simp del]

definition blockToAnchoringDataInternalType0 ::
    "Anchor \<Rightarrow> Block \<Rightarrow> AnchoringDataInternalType0 option" where
  "blockToAnchoringDataInternalType0 anchor block =
     (let start = (if NumberU64 block \<ge> AnchorPeriod (kasConfig anchor)
                   then NumberU64 block - AnchorPeriod (kasConfig anchor) + 1 else 0);
          blkCnt = NumberU64 block - start + 1
      in case txCountLoop (bc anchor) start (NumberU64 block) (len (transactions block)) of
           None \<Rightarrow> None
         | Some txCount \<Rightarrow>
             Some \<lparr>BlockHash = hash block,
                   TxHash = hTxHash (header block),
                   ParentHash = hParentHash (header block),
                   ReceiptHash = hReceiptHash (header block),
                   StateRootHash = hRoot (header block),
                   BlockNumber = hNumber (header block),
                   BlockCount = uint blkCnt,
                   TxCount = sint txCount\<rparr>)"

section \<open>dataToPayload and sendRequest\<close>

text \<open>\<^verbatim>\<open>anchorData.BlockNumber\<close> dereferences the pointer: nil panics.\<close>

definition dataToPayload :: "AnchoringDataInternalType0 option \<Rightarrow> Payload outcome" where
  "dataToPayload anchorData =
     (case anchorData of
        None \<Rightarrow> Panic NilDereference
      | Some d \<Rightarrow> Return \<lparr>Id = Int_String (BlockNumber d), AnchoringData = d\<rparr>)"

text \<open>
  \<^verbatim>\<open>sendRequest\<close> up to the call of the client (lines 170 to 194): the envelope, its
  marshalling, the POST request, basic authentication and the two headers.
\<close>

definition buildRequest :: "Lib \<Rightarrow> Anchor \<Rightarrow> Payload \<Rightarrow> error + Request" where
  "buildRequest lib anchor payload =
     (let hdr = [(''Content-Type'', ''application/json''), (''X-Krn'', Xkrn (kasConfig anchor))];
          bodyData = \<lparr>reqOperator = Operator (kasConfig anchor), reqPayload = payload\<rparr>
      in case json_Marshal lib bodyData of
           Inl err \<Rightarrow> Inl err
         | Inr bodyDataBytes \<Rightarrow>
            (case http_NewRequest lib ''POST'' (Url (kasConfig anchor)) bodyDataBytes of
               Inl err \<Rightarrow> Inl err
             | Inr req \<Rightarrow>
                 Inr (fold (\<lambda>(k, v) r. Header_Set r k v) hdr
                        (SetBasicAuth req (User (kasConfig anchor)) (Pwd (kasConfig anchor))))))"

text \<open>
  The whole of \<^verbatim>\<open>sendRequest\<close>: \<open>Inl err\<close> is \<^verbatim>\<open>(nil, err)\<close>, \<open>Inr v\<close> is \<^verbatim>\<open>(&v, nil)\<close>. The
  error of \<^verbatim>\<open>Decode\<close> is dropped, as in the source; the deferred \<^verbatim>\<open>Close\<close> runs last.
\<close>

definition sendRequest :: "Lib \<Rightarrow> Anchor \<Rightarrow> Payload \<Rightarrow> World \<Rightarrow> (error + respBody) \<times> World" where
  "sendRequest lib anchor payload w =
     (case buildRequest lib anchor payload of
        Inl err \<Rightarrow> (Inl err, w)
      | Inr req \<Rightarrow>
         (case client anchor req of
            Inl err \<Rightarrow> (Inl err, emit [HTTPDo req] w)
          | Inr resp \<Rightarrow>
             (let v = fst (json_Decode lib (RespBody resp) \<lparr>Code = 0, Result = None\<rparr>)
              in (Inr v, emit [HTTPDo req, BodyDecode (RespBody resp), BodyClose] w))))"

section \<open>AnchorBlock and AnchorPeriodicBlock\<close>

definition Errorf_code :: "int \<Rightarrow> error" where
  "Errorf_code c = Error (''error code '' @ Int_String c)"

text \<open>The returned \<^verbatim>\<open>error\<close>: \<open>None\<close> is nil.\<close>

definition AnchorBlock :: "Lib \<Rightarrow> Anchor \<Rightarrow> Block \<Rightarrow> World \<Rightarrow> error option outcome \<times> World" where
  "AnchorBlock lib anchor block w =
     (let anchorData = blockToAnchoringDataInternalType0 anchor block
      in case dataToPayload anchorData of
           Panic p \<Rightarrow> (Panic p, w)
         | Return payload \<Rightarrow>
            (case sendRequest lib anchor payload w of
               (Inl err, w1) \<Rightarrow> (Return (Some err), w1)
             | (Inr res, w1) \<Rightarrow>
                 if Code res \<noteq> codeOK
                 then (Return (Some (Errorf_code (Code res))),
                       emit [LogDebug ''Failed to anchor a block via KAS'' (NumberU64 block) res] w1)
                 else (Return None,
                       emit [LogInfo ''Anchored a block via KAS'' (NumberU64 block)] w1)))"

text \<open>
  The last statement of \<^verbatim>\<open>AnchorPeriodicBlock\<close> (lines 87 to 89): the anchoring attempt,
  whose returned error is logged and dropped. A panic is not an error value and unwinds
  through it.
\<close>

definition anchorOrWarn :: "Lib \<Rightarrow> Anchor \<Rightarrow> Block \<Rightarrow> World \<Rightarrow> unit outcome \<times> World" where
  "anchorOrWarn lib anchor block w =
     (case AnchorBlock lib anchor block w of
        (Panic p, w1) \<Rightarrow> (Panic p, w1)
      | (Return None, w1) \<Rightarrow> (Return (), w1)
      | (Return (Some err), w1) \<Rightarrow>
          (Return (), emit [LogWarn ''Failed to anchor a block via KAS'' (NumberU64 block)] w1))"

definition AnchorPeriodicBlock :: "Lib \<Rightarrow> Anchor \<Rightarrow> Block option \<Rightarrow> World \<Rightarrow> unit outcome \<times> World" where
  "AnchorPeriodicBlock lib anchor blk w =
     (if \<not> Anchor (kasConfig anchor) then (Return (), w)
      else case blk of
             None \<Rightarrow> (Return (), emit [LogError ''KAS Anchor : can not anchor nil block''] w)
           | Some block \<Rightarrow>
              (case umod (NumberU64 block) (AnchorPeriod (kasConfig anchor)) of
                 Panic p \<Rightarrow> (Panic p, w)
               | Return r \<Rightarrow>
                  if r \<noteq> 0 then (Return (), w)
                  else anchorOrWarn lib anchor block w))"

section \<open>The trailing window, as the specification words it\<close>

text \<open>
  For a block at height \<open>h\<close> the window is \<open>[start, h]\<close> with
  \<open>start = max(0, h - period + 1)\<close>; it is retrievable when the lookup has every height
  of \<open>[start, h - 1]\<close>, and its transaction count is the block's own count plus the counts
  of the blocks at those heights.
\<close>

definition windowStart :: "uint64 \<Rightarrow> uint64 \<Rightarrow> nat" where
  "windowStart h period = nat (max 0 (int (unat h) - int (unat period) + 1))"

definition windowRetrievable :: "Anchor \<Rightarrow> Block \<Rightarrow> bool" where
  "windowRetrievable anchor block =
     (\<forall>k \<in> {windowStart (NumberU64 block) (AnchorPeriod (kasConfig anchor)) ..< unat (NumberU64 block)}.
        bc anchor (word_of_nat k) \<noteq> None)"

definition windowTxCount :: "Anchor \<Rightarrow> Block \<Rightarrow> nat" where
  "windowTxCount anchor block =
     length (transactions block)
     + (\<Sum>k = windowStart (NumberU64 block) (AnchorPeriod (kasConfig anchor)) ..< unat (NumberU64 block).
          length (transactions (the (bc anchor (word_of_nat k)))))"

section \<open>Example chain, configuration and stubs\<close>

definition exampleConfig :: "uint64 \<Rightarrow> KASConfig" where
  "exampleConfig period =
     \<lparr>Url = ''http://kas.example/v1/anchor'', Xkrn = ''krn:1001:anchor:test:operator-pool:op1'',
      User = ''user'', Pwd = ''pwd'', Operator = 0x1552, Anchor = True, AnchorPeriod = period\<rparr>"

definition exampleBlock :: "int \<Rightarrow> nat \<Rightarrow> Block" where
  "exampleBlock number txNum =
     \<lparr>header = \<lparr>hParentHash = 2, hRoot = 4, hTxHash = 1, hReceiptHash = 3, hNumber = number\<rparr>,
      transactions = map Transaction [0 ..< txNum],
      hash = 7\<rparr>"

definition exampleChain :: "uint64 \<Rightarrow> Block option" where
  "exampleChain number = (if number = 0 then Some (exampleBlock 0 2) else None)"

definition exampleAnchor :: "uint64 \<Rightarrow> (uint64 \<Rightarrow> Block option) \<Rightarrow> (Request \<Rightarrow> error + Response) \<Rightarrow> Anchor" where
  "exampleAnchor period chain do = \<lparr>kasConfig = exampleConfig period, bc = chain, client = do\<rparr>"

text \<open>
  Library stubs: marshalling and request construction succeed; the decoder knows two
  bodies and fails on every other one, leaving the value it was given untouched, as
  \<^verbatim>\<open>encoding/json\<close> does on input that is not JSON.
\<close>

definition okBody :: bytes where
  \<open>okBody = ''{"code":0}''\<close>

definition rejectedBody :: bytes where
  \<open>rejectedBody = ''{"code":42}''\<close>

definition garbledBody :: bytes where
  \<open>garbledBody = ''<html>502 Bad Gateway</html>''\<close>

definition exampleDecode :: "bytes \<Rightarrow> respBody \<Rightarrow> respBody \<times> error option" where
  "exampleDecode body v =
     (if body = okBody then (v\<lparr>Code := 0\<rparr>, None)
      else if body = rejectedBody then (v\<lparr>Code := 42\<rparr>, None)
      else (v, Some (Error ''invalid character'')))"

definition exampleLib :: Lib where
  "exampleLib =
     \<lparr>json_Marshal = (\<lambda>bodyData. Inr (''payload '' @ Id (reqPayload bodyData))),
      http_NewRequest = (\<lambda>method url body.
         Inr \<lparr>Method = method, URL = url, Body = body, BasicAuth = None, HeaderFields = []\<rparr>),
      json_Decode = exampleDecode\<rparr>"

definition exampleWorld :: World where
  "exampleWorld = \<lparr>anchoredBlockNumber = 0, trace = []\<rparr>"

definition downClient :: "Request \<Rightarrow> error + Response" where
  "downClient req = Inl (Error ''connection refused'')"

definition replyClient :: "bytes \<Rightarrow> Request \<Rightarrow> error + Response" where
  "replyClient body req = Inr \<lparr>RespBody = body\<rparr>"

definition emptyChain :: "uint64 \<Rightarrow> Block option" where
  "emptyChain number = None"

definition examplePayload :: Payload where
  "examplePayload =
     \<lparr>Id = ''1'',
      AnchoringData = \<lparr>BlockHash = 7, TxHash = 1, ParentHash = 2, ReceiptHash = 3, StateRootHash = 4,
                       BlockNumber = 1, BlockCount = 2, TxCount = 5\<rparr>\<rparr>"

definition exampleRequest :: Request where
  "exampleRequest =
     \<lparr>Method = ''POST'', URL = ''http://kas.example/v1/anchor'', Body = ''payload 1'',
      BasicAuth = Some (''user'', ''pwd''),
      HeaderFields = [(''Content-Type'', ''application/json''),
                      (''X-Krn'', ''krn:1001:anchor:test:operator-pool:op1'')]\<rparr>"

definition genesisRequest :: Request where
  "genesisRequest = exampleRequest\<lparr>Body := ''payload 0''\<rparr>"

definition disabledAnchor :: Anchor where
  "disabledAnchor =
     \<lparr>kasConfig = (exampleConfig 2)\<lparr>Anchor := False\<rparr>, bc = exampleChain, client = replyClient okBody\<rparr>"

text \<open>A chain that has every height, with \<open>2^20\<close> transactions in each block.\<close>

definition crowdedBlock :: "int \<Rightarrow> Block" where
  "crowdedBlock number =
     \<lparr>header = \<lparr>hParentHash = 2, hRoot = 4, hTxHash = 1, hReceiptHash = 3, hNumber = number\<rparr>,
      transactions = replicate (2 ^ 20) (Transaction 0),
      hash = 7\<rparr>"

definition crowdedChain :: "uint64 \<Rightarrow> Block option" where
  "crowdedChain number = Some (crowdedBlock (uint number))"

definition exampleAnchorData :: "int \<Rightarrow> AnchoringDataInternalType0" where
  "exampleAnchorData number =
     \<lparr>BlockHash = 0, TxHash = 1, ParentHash = 2, ReceiptHash = 3, StateRootHash = 4,
      BlockNumber = number, BlockCount = 6, TxCount = 7\<rparr>"

section \<open>The window loop\<close>

lemma unat_succ_below: "(i :: uint64) < n \<Longrightarrow> unat (i + 1) = unat i + 1"
proof -
  assume "i < n"
  then have "unat i < unat n" by (simp add: word_less_nat_alt)
  moreover have "unat n < 2 ^ 64" using unsigned_less [of n] by simp
  ultimately have "unat i + 1 < 2 ^ 64" by simp
  then show ?thesis by (simp add: unat_word_ariths)
qed

lemma word_succ_le_iff: "(i :: uint64) < n \<Longrightarrow> (i + 1 \<le> j) = (i < j)"
  by (auto simp add: word_le_nat_alt word_less_nat_alt unat_succ_below)

lemma txCountLoop_available:
  "(txCountLoop lookup i n c \<noteq> None) = (\<forall>j. i \<le> j \<and> j < n \<longrightarrow> lookup j \<noteq> None)"
proof (induction lookup i n c rule: txCountLoop.induct)
  case (1 lookup i n txCount)
  show ?case
  proof (cases "i < n")
    case False
    then show ?thesis by (subst txCountLoop.simps) auto
  next
    case True
    show ?thesis
    proof (cases "lookup i")
      case None
      with True show ?thesis by (subst txCountLoop.simps) auto
    next
      case (Some block)
      have "i \<le> j = (i = j \<or> i + 1 \<le> j)" for j
        using True by (auto simp: word_succ_le_iff)
      then have split: "(\<forall>j. i \<le> j \<and> j < n \<longrightarrow> lookup j \<noteq> None)
          = (\<forall>j. i + 1 \<le> j \<and> j < n \<longrightarrow> lookup j \<noteq> None)"
        using True Some by auto
      have "txCountLoop lookup i n txCount
          = txCountLoop lookup (i + 1) n (txCount + len (transactions block))"
        using True Some by (subst txCountLoop.simps) simp
      then show ?thesis
        using "1.IH" [OF True Some] split by simp
    qed
  qed
qed

lemma txCountLoop_sum:
  "i \<le> n \<Longrightarrow> \<forall>j. i \<le> j \<and> j < n \<longrightarrow> lookup j \<noteq> None \<Longrightarrow>
   txCountLoop lookup i n c =
     Some (c + word_of_nat (\<Sum>k = unat i..<unat n. length (transactions (the (lookup (word_of_nat k))))))"
proof (induction lookup i n c rule: txCountLoop.induct)
  case (1 lookup i n txCount)
  show ?case
  proof (cases "i < n")
    case False
    with "1.prems" have "i = n" by simp
    then show ?thesis by (subst txCountLoop.simps) simp
  next
    case True
    with "1.prems" obtain block where blk: "lookup i = Some block" by auto
    have le: "i + 1 \<le> n" using True by (simp add: word_succ_le_iff)
    have av: "\<forall>j. i + 1 \<le> j \<and> j < n \<longrightarrow> lookup j \<noteq> None"
      using "1.prems"(2) True by (auto simp: word_succ_le_iff)
    have lt: "unat i < unat n" using True by (simp add: word_less_nat_alt)
    have s: "(\<Sum>k = unat i..<unat n. length (transactions (the (lookup (word_of_nat k)))))
        = length (transactions block)
          + (\<Sum>k = unat (i + 1)..<unat n. length (transactions (the (lookup (word_of_nat k)))))"
      using lt blk by (simp add: sum.atLeast_Suc_lessThan unat_succ_below [OF True])
    show ?thesis
      using "1.IH" [OF True blk le av] True blk
      by (subst txCountLoop.simps) (simp add: s len_def add.assoc)
  qed
qed

lemma windowStart_nat: "windowStart h p = Suc (unat h) - unat p"
proof -
  have "nat (max 0 (int (unat h) - int (unat p) + 1)) = Suc (unat h) - unat p"
    by linarith
  then show ?thesis by (simp only: windowStart_def)
qed

lemma start_unat: "(p :: uint64) \<noteq> 0 \<Longrightarrow> unat (if p \<le> h then h - p + 1 else 0) = windowStart h p"
  unfolding windowStart_nat by (simp add: word_le_nat_alt) unat_arith

lemma start_le: "(p :: uint64) \<noteq> 0 \<Longrightarrow> (if p \<le> h then h - p + 1 else 0) \<le> h"
  by (simp add: word_le_nat_alt) unat_arith

lemma blkCnt_unat:
  "(p :: uint64) \<noteq> 0 \<Longrightarrow> unat (h - (if p \<le> h then h - p + 1 else 0) + 1) = unat h - windowStart h p + 1"
  unfolding windowStart_nat by (simp add: word_le_nat_alt) unat_arith

lemma word_range_nat:
  "(\<forall>j :: uint64. s \<le> j \<and> j < h \<longrightarrow> P j) = (\<forall>k \<in> {unat s ..< unat h}. P (word_of_nat k))"
proof
  assume a: "\<forall>j. s \<le> j \<and> j < h \<longrightarrow> P j"
  show "\<forall>k \<in> {unat s ..< unat h}. P (word_of_nat k)"
  proof
    fix k assume k: "k \<in> {unat s ..< unat h}"
    then have "k < 2 ^ 64" using unsigned_less [of h, where 'a = nat] by simp
    then have "unat (word_of_nat k :: uint64) = k" by (simp add: unat_of_nat)
    with k a show "P (word_of_nat k)" by (simp add: word_le_nat_alt word_less_nat_alt)
  qed
next
  assume a: "\<forall>k \<in> {unat s ..< unat h}. P (word_of_nat k)"
  show "\<forall>j. s \<le> j \<and> j < h \<longrightarrow> P j"
  proof (intro allI impI)
    fix j assume "s \<le> j \<and> j < h"
    then have "unat j \<in> {unat s ..< unat h}" by (simp add: word_le_nat_alt word_less_nat_alt)
    with a have "P (word_of_nat (unat j))" by blast
    then show "P j" by simp
  qed
qed

lemma sint_count: "n < 2 ^ 63 \<Longrightarrow> sint (word_of_nat n :: go_int) = int n"
proof -
  assume "n < 2 ^ 63"
  then have b: "int n < 2 ^ 63" by (metis of_nat_less_iff of_nat_numeral of_nat_power)
  have "sint (word_of_nat n :: go_int) = sint (word_of_int (int n) :: go_int)" by simp
  also have "\<dots> = signed_take_bit 63 (int n)" by (simp only: sint_sbintrunc') simp
  also have "\<dots> = int n" using b by (simp add: signed_take_bit_int_eq_self)
  finally show ?thesis .
qed

lemma summary_of_window:
  assumes period: "1 \<le> unat (AnchorPeriod (kasConfig anchor))"
    and retrievable: "windowRetrievable anchor block"
  shows "blockToAnchoringDataInternalType0 anchor block =
     Some \<lparr>BlockHash = hash block,
           TxHash = hTxHash (header block),
           ParentHash = hParentHash (header block),
           ReceiptHash = hReceiptHash (header block),
           StateRootHash = hRoot (header block),
           BlockNumber = hNumber (header block),
           BlockCount = int (unat (NumberU64 block)
                             - windowStart (NumberU64 block) (AnchorPeriod (kasConfig anchor)) + 1),
           TxCount = sint (word_of_nat (windowTxCount anchor block) :: go_int)\<rparr>"
proof -
  let ?h = "NumberU64 block" and ?p = "AnchorPeriod (kasConfig anchor)"
  let ?s = "if ?p \<le> ?h then ?h - ?p + 1 else 0"
  have p: "?p \<noteq> 0" using period by (auto simp: unat_eq_0)
  have av: "\<forall>j. ?s \<le> j \<and> j < ?h \<longrightarrow> bc anchor j \<noteq> None"
    using retrievable
    by (simp only: word_range_nat start_unat [OF p] windowRetrievable_def)
  have loop: "txCountLoop (bc anchor) ?s ?h (len (transactions block))
      = Some (word_of_nat (windowTxCount anchor block))"
    by (simp only: txCountLoop_sum [OF start_le [OF p] av] start_unat [OF p] windowTxCount_def len_def)
      simp
  have cnt: "uint (?h - ?s + 1) = int (unat ?h - windowStart ?h ?p + 1)"
    unfolding uint_nat using blkCnt_unat [OF p, of ?h] by (rule arg_cong)
  show ?thesis
    unfolding blockToAnchoringDataInternalType0_def Let_def
    by (simp only: loop cnt option.case)
qed

section \<open>Window aggregation\<close>

text \<open>
  C1, as claimed, fails: the count is accumulated in a Go \<^verbatim>\<open>int\<close> and wraps. With a period
  of \<open>2^43\<close>, a block at height \<open>2^43\<close> and \<open>2^20\<close> transactions in every block, the window is
  retrievable and holds \<open>2^63\<close> transactions, and the summary's \<open>txCount\<close> is \<open>- 2^63\<close>.
\<close>

theorem blockToAnchoringDataInternalType0_count_wraps:
  "1 \<le> unat (AnchorPeriod (kasConfig (exampleAnchor (2 ^ 43) crowdedChain downClient)))
   \<and> windowRetrievable (exampleAnchor (2 ^ 43) crowdedChain downClient) (crowdedBlock (2 ^ 43))
   \<and> windowTxCount (exampleAnchor (2 ^ 43) crowdedChain downClient) (crowdedBlock (2 ^ 43)) = 2 ^ 63
   \<and> map_option TxCount
         (blockToAnchoringDataInternalType0 (exampleAnchor (2 ^ 43) crowdedChain downClient)
            (crowdedBlock (2 ^ 43)))
       = Some (- (2 ^ 63))"
proof -
  let ?a = "exampleAnchor (2 ^ 43) crowdedChain downClient"
  let ?b = "crowdedBlock (2 ^ 43)"
  have cfg: "AnchorPeriod (kasConfig ?a) = 2 ^ 43" and chain: "bc ?a = crowdedChain"
    by (simp_all add: exampleAnchor_def exampleConfig_def)
  have n: "NumberU64 ?b = 2 ^ 43"
    by (simp add: NumberU64_def crowdedBlock_def)
  have u: "unat (2 ^ 43 :: uint64) = 2 ^ 43"
    by simp
  have s: "windowStart (2 ^ 43) (2 ^ 43) = 1"
    by (simp add: windowStart_def)
  have p: "1 \<le> unat (AnchorPeriod (kasConfig ?a))"
    unfolding cfg u by simp
  have r: "windowRetrievable ?a ?b"
    unfolding windowRetrievable_def chain by (simp add: crowdedChain_def)
  have t: "length (transactions (the (crowdedChain k))) = 2 ^ 20" for k
    by (simp add: crowdedChain_def crowdedBlock_def)
  have c: "windowTxCount ?a ?b = 2 ^ 63"
    unfolding windowTxCount_def n cfg chain s u t
    by (simp add: crowdedBlock_def)
  have w: "sint (word_of_nat (2 ^ 63) :: go_int) = - (2 ^ 63)"
    by simp
  have "map_option TxCount (blockToAnchoringDataInternalType0 ?a ?b) = Some (- (2 ^ 63))"
    unfolding summary_of_window [OF p r] c w by simp
  with p r c show ?thesis
    by (intro conjI)
qed

text \<open>
  C1, amended. For a block at height \<open>h\<close> and a period of at least 1, when every height of
  \<open>[max(0, h - period + 1), h - 1]\<close> is retrievable and the window holds fewer than \<open>2^63\<close>
  transactions, the summary has \<open>blockCount = h - max(0, h - period + 1) + 1\<close>, \<open>txCount\<close>
  equal to the block's own transaction count plus the counts of the blocks at those
  heights, and the hashes and the block number copied from the block and its header.
\<close>

theorem blockToAnchoringDataInternalType0_summary:
  assumes period: "1 \<le> unat (AnchorPeriod (kasConfig anchor))"
    and retrievable: "windowRetrievable anchor block"
    and fits: "windowTxCount anchor block < 2 ^ 63"
  shows "blockToAnchoringDataInternalType0 anchor block =
     Some \<lparr>BlockHash = hash block,
           TxHash = hTxHash (header block),
           ParentHash = hParentHash (header block),
           ReceiptHash = hReceiptHash (header block),
           StateRootHash = hRoot (header block),
           BlockNumber = hNumber (header block),
           BlockCount = int (unat (NumberU64 block)
                             - windowStart (NumberU64 block) (AnchorPeriod (kasConfig anchor)) + 1),
           TxCount = int (windowTxCount anchor block)\<rparr>"
  by (simp only: summary_of_window [OF period retrievable] sint_count [OF fits])

theorem blockToAnchoringDataInternalType0_summary_witness:
  "1 \<le> unat (AnchorPeriod (kasConfig (exampleAnchor 2 exampleChain downClient)))
   \<and> windowRetrievable (exampleAnchor 2 exampleChain downClient) (exampleBlock 1 3)
   \<and> windowTxCount (exampleAnchor 2 exampleChain downClient) (exampleBlock 1 3) < 2 ^ 63
   \<and> blockToAnchoringDataInternalType0 (exampleAnchor 2 exampleChain downClient) (exampleBlock 1 3)
       = Some \<lparr>BlockHash = 7, TxHash = 1, ParentHash = 2, ReceiptHash = 3, StateRootHash = 4,
               BlockNumber = 1, BlockCount = 2, TxCount = 5\<rparr>"
proof -
  let ?a = "exampleAnchor 2 exampleChain downClient"
  let ?b = "exampleBlock 1 3"
  have n: "NumberU64 ?b = 1" by (simp add: NumberU64_def exampleBlock_def)
  have s: "windowStart 1 2 = 0" by (simp add: windowStart_def)
  have cfg: "AnchorPeriod (kasConfig ?a) = 2" and chain: "bc ?a = exampleChain"
    by (simp_all add: exampleAnchor_def exampleConfig_def)
  have p: "1 \<le> unat (AnchorPeriod (kasConfig ?a))"
    by (simp add: cfg)
  have r: "windowRetrievable ?a ?b"
    by (simp add: windowRetrievable_def n s cfg chain exampleChain_def)
  have c: "windowTxCount ?a ?b = 5"
    unfolding windowTxCount_def n cfg chain s
    by (simp add: exampleChain_def exampleBlock_def)
  have f: "windowTxCount ?a ?b < 2 ^ 63" by (simp add: c)
  show ?thesis
    using p r f blockToAnchoringDataInternalType0_summary [OF p r f]
    unfolding c n cfg s
    by (simp add: exampleBlock_def)
qed

section \<open>Payload construction\<close>

lemma below_ten: "d < 10 \<Longrightarrow> d \<in> {0, 1, 2, 3, 4, 5, 6, 7, 8, 9 :: nat}"
  by auto

lemma digitValue_digitChar: "d < 10 \<Longrightarrow> digitValue (digitChar d) = d"
  using below_ten [of d] by (auto simp add: digitValue_def digitChar_def digits_def)

lemma digitChar_not_minus: "d < 10 \<Longrightarrow> digitChar d \<noteq> CHR ''-''"
  using below_ten [of d] by (auto simp add: digitChar_def digits_def)

lemma decimalValue_snoc: "decimalValue (s @ [c]) = 10 * decimalValue s + digitValue c"
  by (simp add: decimalValue_def)

lemma decimalValue_natString: "decimalValue (natString n) = n"
proof (induction n rule: natString.induct)
  case (1 n)
  show ?case
  proof (cases "n < 10")
    case True
    then show ?thesis
      by (subst natString.simps) (simp add: decimalValue_def digitValue_digitChar)
  next
    case False
    then show ?thesis
      using "1.IH"
      by (subst natString.simps) (simp add: decimalValue_snoc digitValue_digitChar)
  qed
qed

lemma natString_head: "\<exists>c cs. natString n = c # cs \<and> c \<noteq> CHR ''-''"
proof (induction n rule: natString.induct)
  case (1 n)
  show ?case
  proof (cases "n < 10")
    case True
    then show ?thesis
      by (subst natString.simps) (simp add: digitChar_not_minus)
  next
    case False
    then show ?thesis
      using "1.IH"
      by (subst natString.simps) auto
  qed
qed

lemma signedDecimalValue_Int_String: "signedDecimalValue (Int_String x) = x"
proof (cases "x < 0")
  case True
  then show ?thesis
    by (simp add: Int_String_def signedDecimalValue_def decimalValue_natString)
next
  case False
  obtain c cs where h: "natString (nat x) = c # cs" "c \<noteq> CHR ''-''"
    using natString_head by blast
  have "decimalValue (c # cs) = nat x"
    using decimalValue_natString [of "nat x"] by (simp only: h)
  with False h show ?thesis
    by (simp add: Int_String_def signedDecimalValue_def)
qed

text \<open>
  C8. For every summary, \<^verbatim>\<open>dataToPayload\<close> returns a payload (it has no state and no
  failing branch on a summary), whose \<open>id\<close> is the decimal rendering of the summary's
  block number: read back as a decimal numeral it is that number, and it is \<open>''0''\<close> at
  height 0. The payload carries the summary unchanged.
\<close>

theorem dataToPayload_id:
  "\<exists>payload. dataToPayload (Some anchorData) = Return payload
     \<and> Id payload = Int_String (BlockNumber anchorData)
     \<and> signedDecimalValue (Id payload) = BlockNumber anchorData
     \<and> AnchoringData payload = anchorData
     \<and> (BlockNumber anchorData = 0 \<longrightarrow> Id payload = ''0'')"
proof -
  have "Int_String 0 = ''0''"
    by (simp add: Int_String_def natString.simps digitChar_def digits_def)
  then show ?thesis
    by (simp add: dataToPayload_def signedDecimalValue_Int_String)
qed

theorem dataToPayload_id_witness:
  "dataToPayload (Some (exampleAnchorData 0)) = Return \<lparr>Id = ''0'', AnchoringData = exampleAnchorData 0\<rparr>
   \<and> BlockNumber (exampleAnchorData 0) = 0
   \<and> signedDecimalValue ''0'' = 0"
  using dataToPayload_id [of "exampleAnchorData 0"]
  by (auto simp add: exampleAnchorData_def)

section \<open>Outcomes of sendRequest, AnchorBlock and the anchoring attempt\<close>

lemma period_nonzero: "1 \<le> unat (p :: uint64) \<Longrightarrow> p \<noteq> 0"
  by (auto simp: unat_eq_0)

lemma blockToAnchoringDataInternalType0_None:
  assumes "1 \<le> unat (AnchorPeriod (kasConfig anchor))"
  shows "(blockToAnchoringDataInternalType0 anchor block = None) = (\<not> windowRetrievable anchor block)"
proof -
  let ?h = "NumberU64 block" and ?p = "AnchorPeriod (kasConfig anchor)"
  let ?s = "if ?p \<le> ?h then ?h - ?p + 1 else 0"
  have p: "?p \<noteq> 0" using assms by (rule period_nonzero)
  let ?loop = "txCountLoop (bc anchor) ?s ?h (len (transactions block))"
  have r: "(?loop \<noteq> None) = windowRetrievable anchor block"
    by (simp only: txCountLoop_available word_range_nat start_unat [OF p] windowRetrievable_def)
  show ?thesis
  proof (cases ?loop)
    case None
    then have "blockToAnchoringDataInternalType0 anchor block = None"
      unfolding blockToAnchoringDataInternalType0_def Let_def by (simp only: option.case)
    with r None show ?thesis by simp
  next
    case (Some txCount)
    then have "blockToAnchoringDataInternalType0 anchor block \<noteq> None"
      unfolding blockToAnchoringDataInternalType0_def Let_def by (simp only: option.case) simp
    with r Some show ?thesis by simp
  qed
qed

lemma AnchorBlock_missing_window:
  assumes "1 \<le> unat (AnchorPeriod (kasConfig anchor))" and "\<not> windowRetrievable anchor block"
  shows "AnchorBlock lib anchor block w = (Panic NilDereference, w)"
  using assms
  by (simp add: AnchorBlock_def dataToPayload_def blockToAnchoringDataInternalType0_None [symmetric])

lemma emit_emit: "emit es2 (emit es1 w) = emit (es1 @ es2) w"
  by (simp add: emit_def)

lemma emit_same: "(emit es w = w) = (es = [])"
proof
  assume "emit es w = w"
  then have "trace (emit es w) = trace w" by simp
  then show "es = []" by (simp add: emit_def)
qed (simp add: emit_def)

lemma emit_db: "anchoredBlockNumber (emit es w) = anchoredBlockNumber w"
  by (simp add: emit_def)

lemma emit_trace: "trace (emit es w) = trace w @ es"
  by (simp add: emit_def)

lemma sendRequest_build_error:
  "buildRequest lib anchor payload = Inl err \<Longrightarrow> sendRequest lib anchor payload w = (Inl err, w)"
  by (simp add: sendRequest_def)

lemma sendRequest_transport_error:
  "buildRequest lib anchor payload = Inr req \<Longrightarrow> client anchor req = Inl err \<Longrightarrow>
   sendRequest lib anchor payload w = (Inl err, emit [HTTPDo req] w)"
  by (simp add: sendRequest_def)

lemma sendRequest_response:
  "buildRequest lib anchor payload = Inr req \<Longrightarrow> client anchor req = Inr resp \<Longrightarrow>
   sendRequest lib anchor payload w =
     (Inr (fst (json_Decode lib (RespBody resp) \<lparr>Code = 0, Result = None\<rparr>)),
      emit [HTTPDo req, BodyDecode (RespBody resp), BodyClose] w)"
  by (simp add: sendRequest_def)

lemma sendRequest_world: "\<exists>es. snd (sendRequest lib anchor payload w) = emit es w \<and> \<not> list_ex isDBEvent es"
proof (cases "buildRequest lib anchor payload")
  case (Inl err)
  then have "snd (sendRequest lib anchor payload w) = emit [] w"
    by (simp add: sendRequest_build_error emit_def)
  then show ?thesis by (intro exI [of _ "[]"]) simp
next
  case (Inr req)
  show ?thesis
  proof (cases "client anchor req")
    case (Inl err)
    with Inr show ?thesis
      by (intro exI [of _ "[HTTPDo req]"]) (simp add: sendRequest_transport_error isDBEvent_def)
  next
    case resp: (Inr resp)
    with Inr show ?thesis
      by (intro exI [of _ "[HTTPDo req, BodyDecode (RespBody resp), BodyClose]"])
        (simp add: sendRequest_response isDBEvent_def)
  qed
qed

lemma AnchorBlock_sent:
  assumes "dataToPayload (blockToAnchoringDataInternalType0 anchor block) = Return payload"
    and "sendRequest lib anchor payload w = (r, w1)"
  shows "AnchorBlock lib anchor block w =
     (case r of
        Inl err \<Rightarrow> (Return (Some err), w1)
      | Inr res \<Rightarrow>
          if Code res \<noteq> 0
          then (Return (Some (Errorf_code (Code res))),
                emit [LogDebug ''Failed to anchor a block via KAS'' (NumberU64 block) res] w1)
          else (Return None, emit [LogInfo ''Anchored a block via KAS'' (NumberU64 block)] w1))"
  using assms by (simp add: AnchorBlock_def codeOK_def split: sum.splits)

lemma AnchorBlock_panic:
  "dataToPayload (blockToAnchoringDataInternalType0 anchor block) = Panic p \<Longrightarrow>
   AnchorBlock lib anchor block w = (Panic p, w)"
  by (simp add: AnchorBlock_def)

lemma dataToPayload_panic: "dataToPayload d = Panic p \<Longrightarrow> p = NilDereference"
  by (auto simp: dataToPayload_def split: option.splits)

lemma AnchorBlock_world:
  "\<exists>es. snd (AnchorBlock lib anchor block w) = emit es w \<and> \<not> list_ex isDBEvent es
     \<and> (fst (AnchorBlock lib anchor block w) = Return None \<longrightarrow> es \<noteq> [])
     \<and> fst (AnchorBlock lib anchor block w) \<noteq> Panic DivideByZero"
proof (cases "dataToPayload (blockToAnchoringDataInternalType0 anchor block)")
  case (Panic p)
  then show ?thesis
    using dataToPayload_panic [OF Panic]
    by (intro exI [of _ "[]"]) (simp add: AnchorBlock_panic emit_def)
next
  case (Return payload)
  obtain r w1 where s: "sendRequest lib anchor payload w = (r, w1)" by (cases "sendRequest lib anchor payload w")
  obtain es where es: "w1 = emit es w" "\<not> list_ex isDBEvent es"
    using sendRequest_world [of lib anchor payload w] s by auto
  show ?thesis
  proof (cases r)
    case (Inl err)
    then show ?thesis
      using es by (intro exI [of _ es]) (simp add: AnchorBlock_sent [OF Return s])
  next
    case (Inr res)
    show ?thesis
    proof (cases "Code res = 0")
      case True
      then show ?thesis
        using es Inr
        by (intro exI [of _ "es @ [LogInfo ''Anchored a block via KAS'' (NumberU64 block)]"])
          (simp add: AnchorBlock_sent [OF Return s] emit_emit isDBEvent_def)
    next
      case False
      then show ?thesis
        using es Inr
        by (intro exI [of _ "es @ [LogDebug ''Failed to anchor a block via KAS'' (NumberU64 block) res]"])
          (simp add: AnchorBlock_sent [OF Return s] emit_emit isDBEvent_def)
    qed
  qed
qed

lemma anchorOrWarn_world:
  "\<exists>es. snd (anchorOrWarn lib anchor block w) = emit es w \<and> \<not> list_ex isDBEvent es
     \<and> (fst (anchorOrWarn lib anchor block w) = Return () \<longrightarrow> es \<noteq> [])
     \<and> fst (anchorOrWarn lib anchor block w) \<noteq> Panic DivideByZero"
proof -
  obtain r w1 where a: "AnchorBlock lib anchor block w = (r, w1)" by (cases "AnchorBlock lib anchor block w")
  obtain es where es: "w1 = emit es w" "\<not> list_ex isDBEvent es" "r = Return None \<longrightarrow> es \<noteq> []"
      "r \<noteq> Panic DivideByZero"
    using AnchorBlock_world [of lib anchor block w] a by auto
  show ?thesis
  proof (cases r)
    case (Panic p)
    with a es show ?thesis
      by (intro exI [of _ es]) (simp add: anchorOrWarn_def)
  next
    case (Return e)
    show ?thesis
    proof (cases e)
      case None
      with Return a es show ?thesis
        by (intro exI [of _ es]) (simp add: anchorOrWarn_def)
    next
      case (Some err)
      with Return a es show ?thesis
        by (intro exI [of _ "es @ [LogWarn ''Failed to anchor a block via KAS'' (NumberU64 block)]"])
          (simp add: anchorOrWarn_def emit_emit isDBEvent_def)
    qed
  qed
qed

lemma anchorOrWarn_not_skip: "anchorOrWarn lib anchor block w \<noteq> (Return (), w)"
proof
  assume a: "anchorOrWarn lib anchor block w = (Return (), w)"
  obtain es where "snd (anchorOrWarn lib anchor block w) = emit es w"
      "fst (anchorOrWarn lib anchor block w) = Return () \<longrightarrow> es \<noteq> []"
    using anchorOrWarn_world [of lib anchor block w] by auto
  with a have "emit es w = w" and "es \<noteq> []" by simp_all
  then show False by (simp add: emit_same)
qed

lemma umod_unat: "y \<noteq> 0 \<Longrightarrow> umod x y = Return (x mod y) \<and> unat (x mod y) = unat x mod unat y"
  by (simp add: umod_def unat_mod_distrib)

lemma AnchorPeriodicBlock_some:
  assumes "Anchor (kasConfig anchor)" and "1 \<le> unat (AnchorPeriod (kasConfig anchor))"
  shows "AnchorPeriodicBlock lib anchor (Some block) w =
     (if unat (NumberU64 block) mod unat (AnchorPeriod (kasConfig anchor)) = 0
      then anchorOrWarn lib anchor block w else (Return (), w))"
proof -
  have p: "AnchorPeriod (kasConfig anchor) \<noteq> 0" using assms(2) by (rule period_nonzero)
  have "(NumberU64 block mod AnchorPeriod (kasConfig anchor) = 0)
      = (unat (NumberU64 block) mod unat (AnchorPeriod (kasConfig anchor)) = 0)"
    using umod_unat [OF p, of "NumberU64 block"] by (simp add: unat_eq_0 [symmetric])
  then show ?thesis
    using assms(1) p by (simp add: AnchorPeriodicBlock_def umod_def)
qed

lemma AnchorPeriodicBlock_world:
  "\<exists>es. snd (AnchorPeriodicBlock lib anchor blk w) = emit es w \<and> \<not> list_ex isDBEvent es"
proof (cases "Anchor (kasConfig anchor)")
  case False
  then show ?thesis
    by (intro exI [of _ "[]"]) (simp add: AnchorPeriodicBlock_def emit_def)
next
  case True
  show ?thesis
  proof (cases blk)
    case None
    with True show ?thesis
      by (intro exI [of _ "[LogError ''KAS Anchor : can not anchor nil block'']"])
        (simp add: AnchorPeriodicBlock_def isDBEvent_def)
  next
    case (Some block)
    show ?thesis
    proof (cases "umod (NumberU64 block) (AnchorPeriod (kasConfig anchor))")
      case (Panic p)
      with True Some show ?thesis
        by (intro exI [of _ "[]"]) (simp add: AnchorPeriodicBlock_def emit_def)
    next
      case (Return r)
      show ?thesis
      proof (cases "r = 0")
        case False
        with True Some Return show ?thesis
          by (intro exI [of _ "[]"]) (simp add: AnchorPeriodicBlock_def emit_def)
      next
        case z: True
        obtain es where "snd (anchorOrWarn lib anchor block w) = emit es w" "\<not> list_ex isDBEvent es"
          using anchorOrWarn_world [of lib anchor block w] by auto
        with True Some Return z show ?thesis
          by (intro exI [of _ es]) (simp add: AnchorPeriodicBlock_def)
      qed
    qed
  qed
qed

lemma AnchorPeriodicBlock_no_division_panic:
  assumes "1 \<le> unat (AnchorPeriod (kasConfig anchor))"
  shows "fst (AnchorPeriodicBlock lib anchor blk w) \<noteq> Panic DivideByZero"
proof (cases "Anchor (kasConfig anchor)")
  case False
  then show ?thesis by (simp add: AnchorPeriodicBlock_def)
next
  case True
  show ?thesis
  proof (cases blk)
    case None
    with True show ?thesis by (simp add: AnchorPeriodicBlock_def)
  next
    case (Some block)
    show ?thesis
      using anchorOrWarn_world [of lib anchor block w]
      by (auto simp add: Some AnchorPeriodicBlock_some [OF True assms])
  qed
qed

lemma AnchorBlock_returns:
  assumes "1 \<le> unat (AnchorPeriod (kasConfig anchor))" and "windowRetrievable anchor block"
  shows "\<exists>e. fst (AnchorBlock lib anchor block w) = Return e"
proof -
  obtain d where d: "blockToAnchoringDataInternalType0 anchor block = Some d"
    using assms blockToAnchoringDataInternalType0_None [of anchor block] by auto
  obtain payload where p: "dataToPayload (blockToAnchoringDataInternalType0 anchor block) = Return payload"
    by (simp add: d dataToPayload_def)
  obtain r w1 where s: "sendRequest lib anchor payload w = (r, w1)"
    by (cases "sendRequest lib anchor payload w")
  show ?thesis
    by (cases r) (simp_all add: AnchorBlock_sent [OF p s])
qed

lemma anchorOrWarn_returns:
  assumes "\<exists>e. fst (AnchorBlock lib anchor block w) = Return e"
  shows "fst (anchorOrWarn lib anchor block w) = Return ()"
proof -
  obtain r w1 where a: "AnchorBlock lib anchor block w = (r, w1)" by (cases "AnchorBlock lib anchor block w")
  with assms obtain e where "r = Return e" by auto
  with a show ?thesis by (cases e) (simp_all add: anchorOrWarn_def)
qed

lemma AnchorBlock_decode_failure:
  assumes "dataToPayload (blockToAnchoringDataInternalType0 anchor block) = Return payload"
    and "buildRequest lib anchor payload = Inr req"
    and "client anchor req = Inr resp"
    and "json_Decode lib (RespBody resp) \<lparr>Code = 0, Result = None\<rparr> = (\<lparr>Code = 0, Result = None\<rparr>, Some derr)"
  shows "fst (AnchorBlock lib anchor block w) = Return None"
  using AnchorBlock_sent [OF assms(1) sendRequest_response [OF assms(2) assms(3)], of w] assms(4)
  by simp

lemma no_db_events: "\<not> list_ex isDBEvent es \<Longrightarrow> filter isDBEvent (xs @ es) = filter isDBEvent xs"
  by (simp add: list_ex_iff filter_empty_conv)

section \<open>The example, evaluated\<close>

lemma example_NumberU64: "NumberU64 (exampleBlock 1 3) = 1"
  by (simp add: NumberU64_def exampleBlock_def)

lemma example_summary:
  "blockToAnchoringDataInternalType0 (exampleAnchor 2 exampleChain do) (exampleBlock 1 3)
     = Some (AnchoringData examplePayload)"
proof -
  have "txCountLoop exampleChain 0 1 (len (transactions (exampleBlock 1 3))) = Some 5"
    by (simp add: txCountLoop.simps exampleChain_def exampleBlock_def len_def)
  then show ?thesis
    by (simp add: blockToAnchoringDataInternalType0_def example_NumberU64 exampleAnchor_def
        exampleConfig_def examplePayload_def)
      (simp add: exampleBlock_def)
qed

lemma example_payload:
  "dataToPayload (blockToAnchoringDataInternalType0 (exampleAnchor 2 exampleChain do) (exampleBlock 1 3))
     = Return examplePayload"
  by (simp add: example_summary dataToPayload_def)
    (simp add: examplePayload_def Int_String_def natString.simps digitChar_def digits_def)

lemma example_request:
  "buildRequest exampleLib (exampleAnchor 2 exampleChain do) examplePayload = Inr exampleRequest"
  by (simp add: buildRequest_def exampleLib_def exampleAnchor_def exampleConfig_def examplePayload_def
      exampleRequest_def Header_Set_def SetBasicAuth_def)

lemma example_reply: "client (exampleAnchor 2 exampleChain (replyClient body)) exampleRequest = Inr \<lparr>RespBody = body\<rparr>"
  by (simp add: exampleAnchor_def replyClient_def)

lemma example_window: "windowRetrievable (exampleAnchor 2 chain do) (exampleBlock 0 n)"
  by (simp add: windowRetrievable_def NumberU64_def exampleBlock_def)

lemma example_success:
  "AnchorBlock exampleLib (exampleAnchor 2 exampleChain (replyClient okBody)) (exampleBlock 1 3) w
     = (Return None,
        emit [HTTPDo exampleRequest, BodyDecode okBody, BodyClose,
              LogInfo ''Anchored a block via KAS'' 1] w)"
proof -
  have d0: "fst (json_Decode exampleLib okBody \<lparr>Code = 0, Result = None\<rparr>)
      = \<lparr>Code = 0, Result = None\<rparr>"
    by (simp add: exampleLib_def exampleDecode_def)
  show ?thesis
    using AnchorBlock_sent [OF example_payload sendRequest_response [OF example_request example_reply], of okBody w]
    by (simp add: d0 emit_emit example_NumberU64)
qed

lemma example_genesis_down:
  "AnchorBlock exampleLib (exampleAnchor 2 exampleChain downClient) (exampleBlock 0 2) w
     = (Return (Some (Error ''connection refused'')), emit [HTTPDo genesisRequest] w)"
proof -
  let ?a = "exampleAnchor 2 exampleChain downClient"
  let ?d = "\<lparr>BlockHash = 7, TxHash = 1, ParentHash = 2, ReceiptHash = 3, StateRootHash = 4,
             BlockNumber = 0, BlockCount = 1, TxCount = 2\<rparr>"
  have n: "NumberU64 (exampleBlock 0 2) = 0"
    by (simp add: NumberU64_def exampleBlock_def)
  have "txCountLoop exampleChain 0 0 (len (transactions (exampleBlock 0 2))) = Some 2"
    by (simp add: txCountLoop.simps exampleBlock_def len_def)
  then have d: "blockToAnchoringDataInternalType0 ?a (exampleBlock 0 2) = Some ?d"
    by (simp add: blockToAnchoringDataInternalType0_def n exampleAnchor_def exampleConfig_def)
      (simp add: exampleBlock_def)
  have pl: "dataToPayload (blockToAnchoringDataInternalType0 ?a (exampleBlock 0 2))
      = Return \<lparr>Id = ''0'', AnchoringData = ?d\<rparr>"
    by (simp add: d dataToPayload_def Int_String_def natString.simps digitChar_def digits_def)
  have rq: "buildRequest exampleLib ?a \<lparr>Id = ''0'', AnchoringData = ?d\<rparr> = Inr genesisRequest"
    by (simp add: buildRequest_def exampleLib_def exampleAnchor_def exampleConfig_def
        genesisRequest_def exampleRequest_def Header_Set_def SetBasicAuth_def)
  have c: "client ?a genesisRequest = Inl (Error ''connection refused'')"
    by (simp add: exampleAnchor_def downClient_def)
  show ?thesis
    using AnchorBlock_sent [OF pl sendRequest_transport_error [OF rq c], of w] by simp
qed

section \<open>The gate of AnchorPeriodicBlock\<close>

text \<open>
  C3. \<^verbatim>\<open>AnchorPeriodicBlock\<close> goes on to the anchoring attempt exactly when anchoring is
  enabled, the block is not nil and its height is divisible by the period: with anchoring
  disabled it returns at once for every block; on a nil block it returns without a failure
  (after an error-level log line when anchoring is enabled); and with a period of at least
  1 and a block at height \<open>h\<close> it runs the attempt iff anchoring is enabled and
  \<open>h mod period = 0\<close>, and returns at once otherwise.
\<close>

theorem AnchorPeriodicBlock_gate:
  "(\<not> Anchor (kasConfig anchor) \<longrightarrow> AnchorPeriodicBlock lib anchor blk w = (Return (), w))
   \<and> AnchorPeriodicBlock lib anchor None w
       = (Return (), if Anchor (kasConfig anchor)
                     then emit [LogError ''KAS Anchor : can not anchor nil block''] w else w)
   \<and> (1 \<le> unat (AnchorPeriod (kasConfig anchor)) \<longrightarrow>
        ((AnchorPeriodicBlock lib anchor (Some block) w = anchorOrWarn lib anchor block w)
           = (Anchor (kasConfig anchor)
              \<and> unat (NumberU64 block) mod unat (AnchorPeriod (kasConfig anchor)) = 0))
        \<and> (\<not> (Anchor (kasConfig anchor)
                \<and> unat (NumberU64 block) mod unat (AnchorPeriod (kasConfig anchor)) = 0) \<longrightarrow>
             AnchorPeriodicBlock lib anchor (Some block) w = (Return (), w)))"
proof (intro conjI impI)
  assume "\<not> Anchor (kasConfig anchor)"
  then show "AnchorPeriodicBlock lib anchor blk w = (Return (), w)"
    by (simp add: AnchorPeriodicBlock_def)
next
  show "AnchorPeriodicBlock lib anchor None w
       = (Return (), if Anchor (kasConfig anchor)
                     then emit [LogError ''KAS Anchor : can not anchor nil block''] w else w)"
    by (simp add: AnchorPeriodicBlock_def)
next
  assume p: "1 \<le> unat (AnchorPeriod (kasConfig anchor))"
  show "(AnchorPeriodicBlock lib anchor (Some block) w = anchorOrWarn lib anchor block w)
           = (Anchor (kasConfig anchor)
              \<and> unat (NumberU64 block) mod unat (AnchorPeriod (kasConfig anchor)) = 0)"
  proof (cases "Anchor (kasConfig anchor)")
    case True
    show ?thesis
      using anchorOrWarn_not_skip [of lib anchor block w]
      by (auto simp add: AnchorPeriodicBlock_some [OF True p] True)
  next
    case False
    then have "AnchorPeriodicBlock lib anchor (Some block) w = (Return (), w)"
      by (simp add: AnchorPeriodicBlock_def)
    with False show ?thesis
      using anchorOrWarn_not_skip [of lib anchor block w] by auto
  qed
next
  assume p: "1 \<le> unat (AnchorPeriod (kasConfig anchor))"
    and n: "\<not> (Anchor (kasConfig anchor)
                \<and> unat (NumberU64 block) mod unat (AnchorPeriod (kasConfig anchor)) = 0)"
  show "AnchorPeriodicBlock lib anchor (Some block) w = (Return (), w)"
  proof (cases "Anchor (kasConfig anchor)")
    case True
    with n show ?thesis by (simp add: AnchorPeriodicBlock_some [OF True p])
  next
    case False
    then show ?thesis by (simp add: AnchorPeriodicBlock_def)
  qed
qed

theorem AnchorPeriodicBlock_gate_witness:
  "\<not> Anchor (kasConfig disabledAnchor)
   \<and> AnchorPeriodicBlock exampleLib disabledAnchor (Some (exampleBlock 0 2)) exampleWorld
       = (Return (), exampleWorld)
   \<and> Anchor (kasConfig (exampleAnchor 2 exampleChain downClient))
   \<and> 1 \<le> unat (AnchorPeriod (kasConfig (exampleAnchor 2 exampleChain downClient)))
   \<and> unat (NumberU64 (exampleBlock 0 2)) mod unat (AnchorPeriod (kasConfig (exampleAnchor 2 exampleChain downClient))) = 0
   \<and> AnchorPeriodicBlock exampleLib (exampleAnchor 2 exampleChain downClient) (Some (exampleBlock 0 2)) exampleWorld
       = anchorOrWarn exampleLib (exampleAnchor 2 exampleChain downClient) (exampleBlock 0 2) exampleWorld
   \<and> unat (NumberU64 (exampleBlock 1 3)) mod unat (AnchorPeriod (kasConfig (exampleAnchor 2 exampleChain downClient))) = 1
   \<and> AnchorPeriodicBlock exampleLib (exampleAnchor 2 exampleChain downClient) (Some (exampleBlock 1 3)) exampleWorld
       = (Return (), exampleWorld)
   \<and> AnchorPeriodicBlock exampleLib (exampleAnchor 2 exampleChain downClient) None exampleWorld
       = (Return (), emit [LogError ''KAS Anchor : can not anchor nil block''] exampleWorld)"
proof -
  let ?a = "exampleAnchor 2 exampleChain downClient"
  have d: "\<not> Anchor (kasConfig disabledAnchor)"
    by (simp add: disabledAnchor_def)
  have e: "Anchor (kasConfig ?a)" and p: "1 \<le> unat (AnchorPeriod (kasConfig ?a))"
    and q: "unat (AnchorPeriod (kasConfig ?a)) = 2"
    by (simp_all add: exampleAnchor_def exampleConfig_def)
  have n0: "unat (NumberU64 (exampleBlock 0 2)) = 0"
    by (simp add: NumberU64_def exampleBlock_def)
  have n1: "unat (NumberU64 (exampleBlock 1 3)) = 1"
    by (simp add: example_NumberU64)
  show ?thesis
    using d e p
      AnchorPeriodicBlock_gate [where anchor = disabledAnchor and lib = exampleLib
        and blk = "Some (exampleBlock 0 2)" and w = exampleWorld and block = "exampleBlock 0 2"]
      AnchorPeriodicBlock_gate [where anchor = ?a and lib = exampleLib
        and blk = None and w = exampleWorld and block = "exampleBlock 0 2"]
      AnchorPeriodicBlock_gate [where anchor = ?a and lib = exampleLib
        and blk = None and w = exampleWorld and block = "exampleBlock 1 3"]
    by (simp add: q n0 n1)
qed

text \<open>
  C10. With anchoring enabled and \<^verbatim>\<open>AnchorPeriod = 0\<close> the gate, on any block that is not
  nil, takes a remainder by zero: the run-time panics there. With a period of at least 1
  the remainder is defined, it is the remainder of the heights, and no division panic can
  occur.
\<close>

theorem period_gate_partial:
  "(Anchor (kasConfig anchor) \<and> AnchorPeriod (kasConfig anchor) = 0 \<longrightarrow>
      umod (NumberU64 block) (AnchorPeriod (kasConfig anchor)) = Panic DivideByZero
      \<and> AnchorPeriodicBlock lib anchor (Some block) w = (Panic DivideByZero, w))
   \<and> (1 \<le> unat (AnchorPeriod (kasConfig anchor)) \<longrightarrow>
      umod (NumberU64 block) (AnchorPeriod (kasConfig anchor))
        = Return (NumberU64 block mod AnchorPeriod (kasConfig anchor))
      \<and> unat (NumberU64 block mod AnchorPeriod (kasConfig anchor))
        = unat (NumberU64 block) mod unat (AnchorPeriod (kasConfig anchor))
      \<and> fst (AnchorPeriodicBlock lib anchor blk w) \<noteq> Panic DivideByZero)"
proof (intro conjI impI)
  assume a: "Anchor (kasConfig anchor) \<and> AnchorPeriod (kasConfig anchor) = 0"
  then show "umod (NumberU64 block) (AnchorPeriod (kasConfig anchor)) = Panic DivideByZero"
    by (simp add: umod_def)
  from a show "AnchorPeriodicBlock lib anchor (Some block) w = (Panic DivideByZero, w)"
    by (simp add: AnchorPeriodicBlock_def umod_def)
next
  assume p: "1 \<le> unat (AnchorPeriod (kasConfig anchor))"
  then have nz: "AnchorPeriod (kasConfig anchor) \<noteq> 0" by (rule period_nonzero)
  show "umod (NumberU64 block) (AnchorPeriod (kasConfig anchor))
        = Return (NumberU64 block mod AnchorPeriod (kasConfig anchor))"
    using umod_unat [OF nz] by simp
  show "unat (NumberU64 block mod AnchorPeriod (kasConfig anchor))
        = unat (NumberU64 block) mod unat (AnchorPeriod (kasConfig anchor))"
    using umod_unat [OF nz] by simp
  show "fst (AnchorPeriodicBlock lib anchor blk w) \<noteq> Panic DivideByZero"
    using p by (rule AnchorPeriodicBlock_no_division_panic)
qed

theorem period_gate_partial_witness:
  "Anchor (kasConfig (exampleAnchor 0 exampleChain downClient))
   \<and> AnchorPeriod (kasConfig (exampleAnchor 0 exampleChain downClient)) = 0
   \<and> AnchorPeriodicBlock exampleLib (exampleAnchor 0 exampleChain downClient) (Some (exampleBlock 1 3)) exampleWorld
       = (Panic DivideByZero, exampleWorld)
   \<and> 1 \<le> unat (AnchorPeriod (kasConfig (exampleAnchor 2 exampleChain downClient)))
   \<and> umod (NumberU64 (exampleBlock 1 3)) (AnchorPeriod (kasConfig (exampleAnchor 2 exampleChain downClient)))
       = Return 1
   \<and> fst (AnchorPeriodicBlock exampleLib (exampleAnchor 2 exampleChain downClient) (Some (exampleBlock 1 3)) exampleWorld)
       \<noteq> Panic DivideByZero"
proof -
  let ?z = "exampleAnchor 0 exampleChain downClient" and ?a = "exampleAnchor 2 exampleChain downClient"
  have z: "Anchor (kasConfig ?z)" "AnchorPeriod (kasConfig ?z) = 0"
    by (simp_all add: exampleAnchor_def exampleConfig_def)
  have p: "1 \<le> unat (AnchorPeriod (kasConfig ?a))" and q: "AnchorPeriod (kasConfig ?a) = 2"
    by (simp_all add: exampleAnchor_def exampleConfig_def)
  show ?thesis
    using z p
      period_gate_partial [where anchor = ?z and block = "exampleBlock 1 3" and lib = exampleLib
        and w = exampleWorld and blk = None]
      period_gate_partial [where anchor = ?a and block = "exampleBlock 1 3" and lib = exampleLib
        and w = exampleWorld and blk = "Some (exampleBlock 1 3)"]
    by (simp add: q example_NumberU64)
qed

section \<open>AnchorBlock: the request/response protocol\<close>

text \<open>
  C6. When the payload is built, the request constructed and the client's \<^verbatim>\<open>Do\<close> returns an
  error, \<^verbatim>\<open>AnchorBlock\<close> returns that very error; the one request handed to the client is
  all it did: no body is decoded, no status is classified, nothing is logged.
\<close>

theorem AnchorBlock_transport_failure:
  assumes "dataToPayload (blockToAnchoringDataInternalType0 anchor block) = Return payload"
    and "buildRequest lib anchor payload = Inr req"
    and "client anchor req = Inl err"
  shows "sendRequest lib anchor payload w = (Inl err, emit [HTTPDo req] w)
    \<and> AnchorBlock lib anchor block w = (Return (Some err), emit [HTTPDo req] w)"
  using AnchorBlock_sent [OF assms(1) sendRequest_transport_error [OF assms(2) assms(3)]]
    sendRequest_transport_error [OF assms(2) assms(3)]
  by simp

theorem AnchorBlock_transport_failure_witness:
  "dataToPayload (blockToAnchoringDataInternalType0 (exampleAnchor 2 exampleChain downClient) (exampleBlock 1 3))
     = Return examplePayload
   \<and> buildRequest exampleLib (exampleAnchor 2 exampleChain downClient) examplePayload = Inr exampleRequest
   \<and> client (exampleAnchor 2 exampleChain downClient) exampleRequest = Inl (Error ''connection refused'')
   \<and> AnchorBlock exampleLib (exampleAnchor 2 exampleChain downClient) (exampleBlock 1 3) exampleWorld
       = (Return (Some (Error ''connection refused'')), emit [HTTPDo exampleRequest] exampleWorld)"
proof -
  have c: "client (exampleAnchor 2 exampleChain downClient) exampleRequest = Inl (Error ''connection refused'')"
    by (simp add: exampleAnchor_def downClient_def)
  show ?thesis
    using AnchorBlock_transport_failure [OF example_payload example_request c]
      example_payload example_request c
    by simp
qed

text \<open>
  C5. When the client returns a response and its body decodes, \<^verbatim>\<open>AnchorBlock\<close> returns nil
  exactly when the decoded code is 0; on any other code it returns the error
  \<^verbatim>\<open>error code <code>\<close>, from whose decimal part the code is read back.
\<close>

theorem AnchorBlock_status:
  assumes "dataToPayload (blockToAnchoringDataInternalType0 anchor block) = Return payload"
    and "buildRequest lib anchor payload = Inr req"
    and "client anchor req = Inr resp"
    and "json_Decode lib (RespBody resp) \<lparr>Code = 0, Result = None\<rparr> = (res, None)"
  shows "((fst (AnchorBlock lib anchor block w) = Return None) = (Code res = 0))
    \<and> (Code res \<noteq> 0 \<longrightarrow>
          fst (AnchorBlock lib anchor block w) = Return (Some (Errorf_code (Code res)))
          \<and> Errorf_code (Code res) = Error (''error code '' @ Int_String (Code res))
          \<and> signedDecimalValue (Int_String (Code res)) = Code res)"
  using AnchorBlock_sent [OF assms(1) sendRequest_response [OF assms(2) assms(3)], of w] assms(4)
  by (simp add: Errorf_code_def signedDecimalValue_Int_String)

theorem AnchorBlock_status_witness:
  "json_Decode exampleLib okBody \<lparr>Code = 0, Result = None\<rparr> = (\<lparr>Code = 0, Result = None\<rparr>, None)
   \<and> fst (AnchorBlock exampleLib (exampleAnchor 2 exampleChain (replyClient okBody)) (exampleBlock 1 3) exampleWorld)
       = Return None
   \<and> json_Decode exampleLib rejectedBody \<lparr>Code = 0, Result = None\<rparr> = (\<lparr>Code = 42, Result = None\<rparr>, None)
   \<and> fst (AnchorBlock exampleLib (exampleAnchor 2 exampleChain (replyClient rejectedBody)) (exampleBlock 1 3) exampleWorld)
       = Return (Some (Error ''error code 42''))"
proof -
  have d0: "json_Decode exampleLib (RespBody \<lparr>RespBody = okBody\<rparr>) \<lparr>Code = 0, Result = None\<rparr>
      = (\<lparr>Code = 0, Result = None\<rparr>, None)"
    by (simp add: exampleLib_def exampleDecode_def)
  have d42: "json_Decode exampleLib (RespBody \<lparr>RespBody = rejectedBody\<rparr>) \<lparr>Code = 0, Result = None\<rparr>
      = (\<lparr>Code = 42, Result = None\<rparr>, None)"
    by (simp add: exampleLib_def exampleDecode_def okBody_def rejectedBody_def)
  have e: "Int_String 42 = ''42''"
    by (simp add: Int_String_def natString.simps digitChar_def digits_def)
  show ?thesis
    using AnchorBlock_status [OF example_payload example_request example_reply d0, of exampleWorld]
      AnchorBlock_status [OF example_payload example_request example_reply d42, of exampleWorld]
      d0 d42
    by (simp add: e)
qed

text \<open>
  C4. The claim is that a response body that fails to decode makes \<^verbatim>\<open>AnchorBlock\<close> fail.
  The source drops the error of \<^verbatim>\<open>Decode\<close>: on a body that is not JSON the response value
  keeps its zero code, which is the success code, and \<^verbatim>\<open>AnchorBlock\<close> returns nil. The
  evaluation below is at such a body.
\<close>

theorem AnchorBlock_undecodable_body_reports_success:
  "snd (json_Decode exampleLib garbledBody \<lparr>Code = 0, Result = None\<rparr>) = Some (Error ''invalid character'')
   \<and> fst (AnchorBlock exampleLib (exampleAnchor 2 exampleChain (replyClient garbledBody)) (exampleBlock 1 3) exampleWorld)
       = Return None"
proof -
  have d: "json_Decode exampleLib (RespBody \<lparr>RespBody = garbledBody\<rparr>) \<lparr>Code = 0, Result = None\<rparr>
      = (\<lparr>Code = 0, Result = None\<rparr>, Some (Error ''invalid character''))"
    by (simp add: exampleLib_def exampleDecode_def okBody_def rejectedBody_def garbledBody_def)
  show ?thesis
    using AnchorBlock_decode_failure [OF example_payload example_request example_reply d, of exampleWorld] d
    by simp
qed

section \<open>A block missing from the window\<close>

text \<open>
  C2. The claim is that \<^verbatim>\<open>AnchorBlock\<close> returns a failure when a height of the trailing
  window below the block is missing. The source returns nil from
  \<^verbatim>\<open>blockToAnchoringDataInternalType0\<close> and hands it to \<^verbatim>\<open>dataToPayload\<close> unchecked, which
  dereferences it: the run-time panics, before any payload or request exists. The
  evaluation below is at period 2 and a block at height 1 over a chain without height 0.
\<close>

theorem AnchorBlock_missing_window_panics:
  "bc (exampleAnchor 2 emptyChain (replyClient okBody)) 0 = None
   \<and> AnchorBlock exampleLib (exampleAnchor 2 emptyChain (replyClient okBody)) (exampleBlock 1 3) exampleWorld
       = (Panic NilDereference, exampleWorld)"
proof -
  let ?a = "exampleAnchor 2 emptyChain (replyClient okBody)"
  have p: "1 \<le> unat (AnchorPeriod (kasConfig ?a))"
    by (simp add: exampleAnchor_def exampleConfig_def)
  have s: "windowStart 1 2 = 0" by (simp add: windowStart_def)
  have m: "\<not> windowRetrievable ?a (exampleBlock 1 3)"
    by (simp add: windowRetrievable_def example_NumberU64 exampleAnchor_def exampleConfig_def s emptyChain_def)
  have "bc ?a 0 = None" by (simp add: exampleAnchor_def emptyChain_def)
  then show ?thesis
    using AnchorBlock_missing_window [OF p m] by simp
qed

section \<open>What AnchorPeriodicBlock lets through to its caller\<close>

text \<open>
  An error returned by the anchoring attempt never reaches the caller: with anchoring
  disabled or a period of at least 1, and a block (or nil) whose trailing window is
  retrievable, \<^verbatim>\<open>AnchorPeriodicBlock\<close> returns normally, and an error of \<^verbatim>\<open>AnchorBlock\<close> is
  dropped after a warning is logged.
\<close>

lemma AnchorPeriodicBlock_swallows_errors:
  assumes "\<not> Anchor (kasConfig anchor) \<or> 1 \<le> unat (AnchorPeriod (kasConfig anchor))"
    and "\<forall>block. blk = Some block \<longrightarrow> windowRetrievable anchor block"
  shows "fst (AnchorPeriodicBlock lib anchor blk w) = Return ()
    \<and> (\<forall>block err w1.
          blk = Some block \<and> Anchor (kasConfig anchor)
          \<and> unat (NumberU64 block) mod unat (AnchorPeriod (kasConfig anchor)) = 0
          \<and> AnchorBlock lib anchor block w = (Return (Some err), w1) \<longrightarrow>
          snd (AnchorPeriodicBlock lib anchor blk w)
            = emit [LogWarn ''Failed to anchor a block via KAS'' (NumberU64 block)] w1)"
proof (cases "Anchor (kasConfig anchor)")
  case False
  then show ?thesis by (simp add: AnchorPeriodicBlock_def)
next
  case True
  with assms(1) have p: "1 \<le> unat (AnchorPeriod (kasConfig anchor))" by simp
  show ?thesis
  proof (cases blk)
    case None
    with True show ?thesis by (simp add: AnchorPeriodicBlock_def)
  next
    case (Some block)
    with assms(2) have r: "windowRetrievable anchor block" by simp
    have "fst (anchorOrWarn lib anchor block w) = Return ()"
      using AnchorBlock_returns [OF p r] by (rule anchorOrWarn_returns)
    then show ?thesis
      by (simp add: Some AnchorPeriodicBlock_some [OF True p] anchorOrWarn_def)
  qed
qed

lemma AnchorPeriodicBlock_swallows_errors_example:
  "1 \<le> unat (AnchorPeriod (kasConfig (exampleAnchor 2 exampleChain downClient)))
   \<and> windowRetrievable (exampleAnchor 2 exampleChain downClient) (exampleBlock 0 2)
   \<and> AnchorBlock exampleLib (exampleAnchor 2 exampleChain downClient) (exampleBlock 0 2) exampleWorld
       = (Return (Some (Error ''connection refused'')), emit [HTTPDo genesisRequest] exampleWorld)
   \<and> AnchorPeriodicBlock exampleLib (exampleAnchor 2 exampleChain downClient)
         (Some (exampleBlock 0 2)) exampleWorld
       = (Return (),
          \<lparr>anchoredBlockNumber = 0,
            trace = [HTTPDo genesisRequest, LogWarn ''Failed to anchor a block via KAS'' 0]\<rparr>)"
proof -
  let ?a = "exampleAnchor 2 exampleChain downClient"
  have e: "Anchor (kasConfig ?a)" and q: "unat (AnchorPeriod (kasConfig ?a)) = 2"
    by (simp_all add: exampleAnchor_def exampleConfig_def)
  have p: "1 \<le> unat (AnchorPeriod (kasConfig ?a))"
    by (simp add: q)
  have n: "NumberU64 (exampleBlock 0 2) = 0"
    by (simp add: NumberU64_def exampleBlock_def)
  have r: "windowRetrievable ?a (exampleBlock 0 2)" by (rule example_window)
  have h1: "\<not> Anchor (kasConfig ?a) \<or> 1 \<le> unat (AnchorPeriod (kasConfig ?a))" using p by simp
  have h2: "\<forall>block. Some (exampleBlock 0 2) = Some block \<longrightarrow> windowRetrievable ?a block"
    using r by simp
  have "AnchorPeriodicBlock exampleLib ?a (Some (exampleBlock 0 2)) exampleWorld
      = (Return (), emit [LogWarn ''Failed to anchor a block via KAS'' 0]
                      (emit [HTTPDo genesisRequest] exampleWorld))"
    using AnchorPeriodicBlock_swallows_errors [OF h1 h2, of exampleLib exampleWorld] e
      example_genesis_down [of exampleWorld]
    by (simp add: q n prod_eq_iff)
  then show ?thesis
    using p r example_genesis_down [of exampleWorld]
    by (simp add: emit_def exampleWorld_def)
qed

text \<open>
  C7. The claim is that \<^verbatim>\<open>AnchorPeriodicBlock\<close> returns normally on every block and lets no
  failure through, a missing window block included. The source has no error value for
  that case: \<^verbatim>\<open>AnchorBlock\<close> dereferences the nil summary and the panic unwinds through
  \<^verbatim>\<open>AnchorPeriodicBlock\<close> to its caller. The evaluation below is at an enabled
  configuration with period 2 and a block at height 2 over a chain without height 1.
\<close>

theorem AnchorPeriodicBlock_missing_window_panics:
  "Anchor (kasConfig (exampleAnchor 2 emptyChain (replyClient okBody)))
   \<and> AnchorPeriod (kasConfig (exampleAnchor 2 emptyChain (replyClient okBody))) = 2
   \<and> NumberU64 (exampleBlock 2 3) = 2
   \<and> bc (exampleAnchor 2 emptyChain (replyClient okBody)) 1 = None
   \<and> AnchorPeriodicBlock exampleLib (exampleAnchor 2 emptyChain (replyClient okBody))
         (Some (exampleBlock 2 3)) exampleWorld
       = (Panic NilDereference, exampleWorld)"
proof -
  let ?a = "exampleAnchor 2 emptyChain (replyClient okBody)"
  have e: "Anchor (kasConfig ?a)" and q: "AnchorPeriod (kasConfig ?a) = 2"
    and c: "bc ?a 1 = None"
    by (simp_all add: exampleAnchor_def exampleConfig_def emptyChain_def)
  have p: "1 \<le> unat (AnchorPeriod (kasConfig ?a))"
    by (simp add: q)
  have n: "NumberU64 (exampleBlock 2 3) = 2"
    by (simp add: NumberU64_def exampleBlock_def)
  have s: "windowStart 2 2 = 1"
    by (simp add: windowStart_def)
  have "1 \<in> {windowStart 2 2 ..< unat (2 :: uint64)}"
    by (simp add: s)
  then have m: "\<not> windowRetrievable ?a (exampleBlock 2 3)"
    unfolding windowRetrievable_def n q using c by force
  have "anchorOrWarn exampleLib ?a (exampleBlock 2 3) exampleWorld = (Panic NilDereference, exampleWorld)"
    by (simp add: anchorOrWarn_def AnchorBlock_missing_window [OF p m])
  then have "AnchorPeriodicBlock exampleLib ?a (Some (exampleBlock 2 3)) exampleWorld
      = (Panic NilDereference, exampleWorld)"
    by (simp add: AnchorPeriodicBlock_some [OF e p] n q)
  with e q n c show ?thesis
    by (intro conjI)
qed

section \<open>The watermark\<close>

text \<open>
  C9. No operation of the anchoring core reads or writes the watermark:
  \<^verbatim>\<open>sendRequest\<close>, \<^verbatim>\<open>AnchorBlock\<close> and \<^verbatim>\<open>AnchorPeriodicBlock\<close> leave the anchored block
  number as it was and add no \<^verbatim>\<open>AnchorDB\<close> call to the trace.
  \<^verbatim>\<open>blockToAnchoringDataInternalType0\<close> and \<^verbatim>\<open>dataToPayload\<close> have no access to it at all.
\<close>

theorem AnchorDB_untouched:
  "anchoredBlockNumber (snd (sendRequest lib anchor payload w)) = anchoredBlockNumber w
   \<and> filter isDBEvent (trace (snd (sendRequest lib anchor payload w))) = filter isDBEvent (trace w)
   \<and> anchoredBlockNumber (snd (AnchorBlock lib anchor block w)) = anchoredBlockNumber w
   \<and> filter isDBEvent (trace (snd (AnchorBlock lib anchor block w))) = filter isDBEvent (trace w)
   \<and> anchoredBlockNumber (snd (AnchorPeriodicBlock lib anchor blk w)) = anchoredBlockNumber w
   \<and> filter isDBEvent (trace (snd (AnchorPeriodicBlock lib anchor blk w))) = filter isDBEvent (trace w)"
proof -
  obtain es1 where e1: "snd (sendRequest lib anchor payload w) = emit es1 w" "\<not> list_ex isDBEvent es1"
    using sendRequest_world [of lib anchor payload w] by auto
  obtain es2 where e2: "snd (AnchorBlock lib anchor block w) = emit es2 w" "\<not> list_ex isDBEvent es2"
    using AnchorBlock_world [of lib anchor block w] by auto
  obtain es3 where e3: "snd (AnchorPeriodicBlock lib anchor blk w) = emit es3 w" "\<not> list_ex isDBEvent es3"
    using AnchorPeriodicBlock_world [of lib anchor blk w] by auto
  show ?thesis
    unfolding e1(1) e2(1) e3(1) emit_db emit_trace
    using no_db_events [OF e1(2)] no_db_events [OF e2(2)] no_db_events [OF e3(2)]
    by simp
qed

theorem AnchorDB_untouched_witness:
  "anchoredBlockNumber (WriteAnchoredBlockNumber 7 exampleWorld) = 7
   \<and> filter isDBEvent (trace (WriteAnchoredBlockNumber 7 exampleWorld)) = [DBWrite 7]
   \<and> snd (AnchorBlock exampleLib (exampleAnchor 2 exampleChain (replyClient okBody)) (exampleBlock 1 3)
            (WriteAnchoredBlockNumber 7 exampleWorld))
       = \<lparr>anchoredBlockNumber = 7,
          trace = [DBWrite 7, HTTPDo exampleRequest, BodyDecode okBody, BodyClose,
                   LogInfo ''Anchored a block via KAS'' 1]\<rparr>
   \<and> fst (ReadAnchoredBlockNumber (snd (AnchorBlock exampleLib (exampleAnchor 2 exampleChain (replyClient okBody))
         (exampleBlock 1 3) (WriteAnchoredBlockNumber 7 exampleWorld)))) = 7
   \<and> filter isDBEvent (trace (snd (AnchorBlock exampleLib (exampleAnchor 2 exampleChain (replyClient okBody))
         (exampleBlock 1 3) (WriteAnchoredBlockNumber 7 exampleWorld)))) = [DBWrite 7]"
proof -
  have w: "WriteAnchoredBlockNumber 7 exampleWorld = \<lparr>anchoredBlockNumber = 7, trace = [DBWrite 7]\<rparr>"
    by (simp add: WriteAnchoredBlockNumber_def exampleWorld_def emit_def)
  show ?thesis
    using AnchorDB_untouched [of exampleLib "exampleAnchor 2 exampleChain (replyClient okBody)"
        examplePayload "WriteAnchoredBlockNumber 7 exampleWorld" "exampleBlock 1 3" None]
    by (simp add: example_success w emit_def isDBEvent_def ReadAnchoredBlockNumber_def)
qed

end
